theory Spec2Isabelle
  imports Complex_Main
begin

section \<open>The authorization decorator of utils/fastapi/decorators.py\<close>

text \<open>
  The decorator \<^verbatim>\<open>with_authorization(auth_check)\<close> wraps an asynchronous handler
  \<^verbatim>\<open>func\<close>. The wrapper \<^verbatim>\<open>authorization(func, instance, args, kwargs)\<close> reads two
  environment variables, a module-level \<^verbatim>\<open>TTLCache(sys.maxsize, ttl=1200)\<close>, the keyword
  arguments \<^verbatim>\<open>access_token\<close> and \<^verbatim>\<open>response\<close>, and talks to a remote endpoint.
  The embedding below passes all of that state explicitly and returns Python exceptions
  as values.
\<close>

subsection \<open>Python values, truthiness and exceptions\<close>

text \<open>
  The values that reach the wrapper through \<^verbatim>\<open>args\<close> and \<^verbatim>\<open>kwargs\<close>: \<^verbatim>\<open>None\<close>, a
  string, an integer, or a reference to an object (such as a FastAPI response) that
  defines neither \<^verbatim>\<open>__bool__\<close> nor \<^verbatim>\<open>__len__\<close> and accepts attribute assignment.
  All four kinds are hashable, so each can be a cache key.
\<close>

datatype pyval = PNone | PStr string | PInt int | PRef nat

fun truthy :: "pyval \<Rightarrow> bool" where
  "truthy PNone = False"
| "truthy (PStr s) = (s \<noteq> [])"
| "truthy (PInt i) = (i \<noteq> 0)"
| "truthy (PRef a) = True"

text \<open>
  \<open>KeyError\<close> stands for \<^verbatim>\<open>KeyError\<close> and its subclasses: what the clause
  \<^verbatim>\<open>except KeyError\<close> catches. \<open>OtherError\<close> carries the class name of any exception
  that is none of the three named ones.
\<close>

datatype exn = KeyError | ValueError | AttributeError | OtherError string

type_synonym kwargs = "string \<rightharpoonup> pyval"

subsection \<open>\<^verbatim>\<open>int(str)\<close>\<close>

text \<open>
  \<^verbatim>\<open>int(os.environ.get('AUTH_ENABLED', 1))\<close> parses a string in base 10 when the variable
  is set. CPython skips leading white space, reads an optional sign, then digits with
  single underscores between them, then allows only white space up to the end; more than
  4300 digits are refused (the interpreter's default limit). A \<open>char\<close> is read here as
  a code point below 256: tab, line feed, vertical tab, form feed, carriage return, space,
  U+0085 and U+00A0 are the white space among them, and \<^verbatim>\<open>0\<close> to \<^verbatim>\<open>9\<close> the only decimal
  digits.
\<close>

definition is_space :: "char \<Rightarrow> bool" where
  "is_space c = ((of_char c :: nat) \<in> {9, 10, 11, 12, 13, 32, 133, 160})"

definition is_digit :: "char \<Rightarrow> bool" where
  "is_digit c = (48 \<le> (of_char c :: nat) \<and> (of_char c :: nat) \<le> 57)"

definition is_body_char :: "char \<Rightarrow> bool" where
  "is_body_char c = (if is_digit c then True else c = CHR ''_'')"

fun double_underscore :: "string \<Rightarrow> bool" where
  "double_underscore (a # b # r) =
     (if a = CHR ''_'' \<and> b = CHR ''_'' then True else double_underscore (b # r))"
| "double_underscore r = False"

definition digits_value :: "string \<Rightarrow> int" where
  "digits_value body =
     foldl (\<lambda>acc c. if c = CHR ''_'' then acc else acc * 10 + (int (of_char c) - 48)) 0 body"

definition py_int :: "string \<Rightarrow> int option" where
  "py_int s =
     (let s1 = dropWhile is_space s;
          neg = (case s1 of [] \<Rightarrow> False | c # r \<Rightarrow> c = CHR ''-'');
          s2 = (case s1 of [] \<Rightarrow> []
                | c # r \<Rightarrow> if c = CHR ''+'' then r else if c = CHR ''-'' then r else s1);
          body = takeWhile is_body_char s2;
          rest = dropWhile is_body_char s2
      in if body = [] then None
         else if hd body = CHR ''_'' then None
         else if last body = CHR ''_'' then None
         else if double_underscore body then None
         else if list_ex (\<lambda>c. if is_space c then False else True) rest then None
         else if 4300 < length (filter is_digit body) then None
         else Some (if neg then - digits_value body else digits_value body))"

subsection \<open>The state\<close>

text \<open>
  \<open>outside\<close> is everything the wrapper shares with its collaborators (the handler and
  the remote service): the process environment, the monotonic clock that the cache reads,
  the \<^verbatim>\<open>status_code\<close> attribute of each response object (by reference), and the rest of
  the world, \<open>ext\<close>. Time is in seconds: a reading of \<^verbatim>\<open>time.monotonic()\<close> is a
  double, written as the real number it denotes. Comparing two readings is exact; the one
  sum the cache computes on them is rounded (see \<open>float_add\<close> below).
\<close>

record 's outside =
  environ :: "string \<rightharpoonup> string"
  monotonic :: real
  status_code :: "nat \<Rightarrow> int"
  ext :: 's

text \<open>
  \<open>world\<close> adds what only the wrapper touches: \<open>cache\<close>, the module-level \<^verbatim>\<open>__cache\<close>,
  holding for each key its value and its expiration deadline; and two logs that record
  what a call did, oldest entry first: \<open>requests\<close>, every \<^verbatim>\<open>session.get(url,
  headers={'Authorization': token})\<close> issued, and \<open>invocations\<close>, every call
  \<^verbatim>\<open>func(*args, **kwargs)\<close>. A call of the wrapper runs from start to end with no other
  call of the wrapper in between: the collaborators change \<open>outside\<close> only.
\<close>

record ('r, 's) world =
  cache :: "pyval \<rightharpoonup> ('r \<times> real)"
  outside :: "'s outside"
  requests :: "(string \<times> pyval) list"
  invocations :: "(pyval list \<times> kwargs) list"

subsection \<open>\<^verbatim>\<open>TTLCache(sys.maxsize, ttl=1200)\<close>\<close>

text \<open>
  The library class, as far as the wrapper uses it. \<^verbatim>\<open>__getitem__\<close> raises
  \<^verbatim>\<open>KeyError\<close> for a key that is absent or whose deadline is not in the future
  (\<^verbatim>\<open>expired = not (self.timer() < link.expires)\<close>), and changes nothing.
  \<^verbatim>\<open>__setitem__\<close> drops every expired entry, then stores the value with the deadline
  \<^verbatim>\<open>time + self.ttl\<close>. Every item has size 1 and the capacity is \<^verbatim>\<open>sys.maxsize\<close>, so
  no entry is ever evicted for space.

  The sum \<^verbatim>\<open>time + self.ttl\<close> is a sum of doubles: the exact sum rounded to the nearest
  double, ties to the even significand. \<open>to_double\<close> rounds a real to 53 significant bits
  at the exponent of its binade, and at the least exponent \<open>-1022\<close> below the normal
  range. A sum beyond the largest double (about \<open>1.8e308\<close> seconds) would be infinite in
  the code and is not modelled.
\<close>

definition ttl :: real where
  "ttl = 1200"

definition round_even :: "real \<Rightarrow> int" where
  "round_even x =
     (let f = \<lfloor>x\<rfloor>; d = x - of_int f
      in if d < 1 / 2 then f
         else if 1 / 2 < d then f + 1
         else if even f then f else f + 1)"

definition to_double :: "real \<Rightarrow> real" where
  "to_double x =
     (if x = 0 then 0
      else let e = max \<lfloor>log 2 \<bar>x\<bar>\<rfloor> (- 1022)
           in of_int (round_even (x * 2 powr (52 - of_int e))) * 2 powr (of_int e - 52))"

definition float_add :: "real \<Rightarrow> real \<Rightarrow> real" where
  "float_add a b = to_double (a + b)"

definition cache_getitem :: "(pyval \<rightharpoonup> ('r \<times> real)) \<Rightarrow> pyval \<Rightarrow> real \<Rightarrow> exn + 'r" where
  "cache_getitem c k now =
     (case c k of
        None \<Rightarrow> Inl KeyError
      | Some (v, expires) \<Rightarrow> if now < expires then Inr v else Inl KeyError)"

definition expire :: "(pyval \<rightharpoonup> ('r \<times> real)) \<Rightarrow> real \<Rightarrow> (pyval \<rightharpoonup> ('r \<times> real))" where
  "expire c now =
     (\<lambda>k. case c k of
            None \<Rightarrow> None
          | Some (v, expires) \<Rightarrow> if now < expires then Some (v, expires) else None)"

definition cache_setitem ::
  "(pyval \<rightharpoonup> ('r \<times> real)) \<Rightarrow> pyval \<Rightarrow> 'r \<Rightarrow> real \<Rightarrow> (pyval \<rightharpoonup> ('r \<times> real))" where
  "cache_setitem c k v now = (expire c now)(k \<mapsto> (v, float_add now ttl))"

subsection \<open>The wrapper\<close>

text \<open>
  \<^verbatim>\<open>def __forbid_access(kwargs):
      resp = kwargs.get('response', None)
      if resp:
          resp.status_code = status.HTTP_403_FORBIDDEN\<close>
  Assigning an attribute of a string or an integer raises \<^verbatim>\<open>AttributeError\<close>.
\<close>

definition forbid_access :: "kwargs \<Rightarrow> 's outside \<Rightarrow> (exn + unit) \<times> 's outside" where
  "forbid_access kw out =
     (case kw ''response'' of
        None \<Rightarrow> (Inr (), out)
      | Some resp \<Rightarrow>
          if truthy resp then
            (case resp of
               PRef a \<Rightarrow> (Inr (), out\<lparr>status_code := (status_code out)(a := 403)\<rparr>)
             | _ \<Rightarrow> (Inl AttributeError, out))
          else (Inr (), out))"

text \<open>
  The two places that reject, \<^verbatim>\<open>__forbid_access(kwargs); return\<close> (lines 35 and 36) and
  the fall-through after \<^verbatim>\<open>__forbid_access(kwargs)\<close> in \<^verbatim>\<open>next\<close> (line 41): the call
  yields \<^verbatim>\<open>None\<close>, written \<open>Inr None\<close>.
\<close>

definition reject :: "kwargs \<Rightarrow> ('r, 's) world \<Rightarrow> (exn + 'v option) \<times> ('r, 's) world" where
  "reject kw w =
     (case forbid_access kw (outside w) of
        (Inl e, out) \<Rightarrow> (Inl e, w\<lparr>outside := out\<rparr>)
      | (Inr u, out) \<Rightarrow> (Inr None, w\<lparr>outside := out\<rparr>))"

text \<open>
  \<^verbatim>\<open>return await func(*args, **kwargs)\<close> (lines 31 and 40): the handler runs on the
  outside state, and its value or exception is the wrapper's.
\<close>

definition invoke ::
  "(pyval list \<Rightarrow> kwargs \<Rightarrow> 's outside \<Rightarrow> (exn + 'v) \<times> 's outside) \<Rightarrow>
   pyval list \<Rightarrow> kwargs \<Rightarrow> ('r, 's) world \<Rightarrow> (exn + 'v option) \<times> ('r, 's) world" where
  "invoke func args kw w =
     (case func args kw (outside w) of
        (Inl e, out) \<Rightarrow>
          (Inl e, w\<lparr>outside := out, invocations := invocations w @ [(args, kw)]\<rparr>)
      | (Inr v, out) \<Rightarrow>
          (Inr (Some v), w\<lparr>outside := out, invocations := invocations w @ [(args, kw)]\<rparr>))"

text \<open>
  \<^verbatim>\<open>async def next(response):
      if auth_check(response):
          return await func(*args, **kwargs)
      __forbid_access(kwargs)\<close>
  The predicate returns a truth value or raises.
\<close>

definition next_auth ::
  "('r \<Rightarrow> exn + bool) \<Rightarrow>
   (pyval list \<Rightarrow> kwargs \<Rightarrow> 's outside \<Rightarrow> (exn + 'v) \<times> 's outside) \<Rightarrow>
   pyval list \<Rightarrow> kwargs \<Rightarrow> 'r \<Rightarrow> ('r, 's) world \<Rightarrow> (exn + 'v option) \<times> ('r, 's) world" where
  "next_auth auth_check func args kw response w =
     (case auth_check response of
        Inl e \<Rightarrow> (Inl e, w)
      | Inr ok \<Rightarrow> if ok then invoke func args kw w else reject kw w)"

text \<open>
  \<^verbatim>\<open>int(os.environ.get('AUTH_ENABLED', 1))\<close>, as the truth value that line 30 tests: the
  default \<^verbatim>\<open>1\<close> when the variable is unset, \<^verbatim>\<open>ValueError\<close> when its value is not an
  integer numeral.
\<close>

definition auth_enabled :: "(string \<rightharpoonup> string) \<Rightarrow> exn + bool" where
  "auth_enabled env =
     (case env ''AUTH_ENABLED'' of
        None \<Rightarrow> Inr True
      | Some s \<Rightarrow> (case py_int s of None \<Rightarrow> Inl ValueError | Some n \<Rightarrow> Inr (n \<noteq> 0)))"

text \<open>
  Lines 43 to 47, the body of the \<^verbatim>\<open>try\<close> statement:
  \<^verbatim>\<open>response = __cache[access_token]
  return await next(response)\<close>
\<close>

definition try_cached ::
  "('r \<Rightarrow> exn + bool) \<Rightarrow>
   (pyval list \<Rightarrow> kwargs \<Rightarrow> 's outside \<Rightarrow> (exn + 'v) \<times> 's outside) \<Rightarrow>
   pyval list \<Rightarrow> kwargs \<Rightarrow> pyval \<Rightarrow> ('r, 's) world \<Rightarrow> (exn + 'v option) \<times> ('r, 's) world" where
  "try_cached auth_check func args kw access_token w =
     (case cache_getitem (cache w) access_token (monotonic (outside w)) of
        Inl e \<Rightarrow> (Inl e, w)
      | Inr response \<Rightarrow> next_auth auth_check func args kw response w)"

text \<open>
  Lines 49 to 55:
  \<^verbatim>\<open>async with aiohttp.ClientSession() as session:
      async with session.get(os.environ['AUTH_ENDPOINT'],
                             headers={'Authorization': access_token}) as response:
          __cache[access_token] = response
          return await next(response)\<close>
  \<^verbatim>\<open>os.environ['AUTH_ENDPOINT']\<close> raises \<^verbatim>\<open>KeyError\<close> before any request when the
  variable is unset. \<open>http_get\<close> is the request: it returns the response object or raises,
  and time passes while it runs. The cache reads the clock when it stores.
\<close>

definition fetch ::
  "('r \<Rightarrow> exn + bool) \<Rightarrow>
   (string \<Rightarrow> pyval \<Rightarrow> 's outside \<Rightarrow> (exn + 'r) \<times> 's outside) \<Rightarrow>
   (pyval list \<Rightarrow> kwargs \<Rightarrow> 's outside \<Rightarrow> (exn + 'v) \<times> 's outside) \<Rightarrow>
   pyval list \<Rightarrow> kwargs \<Rightarrow> pyval \<Rightarrow> ('r, 's) world \<Rightarrow> (exn + 'v option) \<times> ('r, 's) world" where
  "fetch auth_check http_get func args kw access_token w =
     (case environ (outside w) ''AUTH_ENDPOINT'' of
        None \<Rightarrow> (Inl KeyError, w)
      | Some url \<Rightarrow>
          (case http_get url access_token (outside w) of
             (Inl e, out) \<Rightarrow>
               (Inl e, w\<lparr>outside := out, requests := requests w @ [(url, access_token)]\<rparr>)
           | (Inr response, out) \<Rightarrow>
               next_auth auth_check func args kw response
                 (w\<lparr>cache := cache_setitem (cache w) access_token response (monotonic out),
                    outside := out,
                    requests := requests w @ [(url, access_token)]\<rparr>)))"

text \<open>
  Lines 33 to 55, reached when authorization is enabled. The \<^verbatim>\<open>try\<close> statement hands
  every \<^verbatim>\<open>KeyError\<close> raised in its body to \<^verbatim>\<open>except KeyError: pass\<close>, after which
  control reaches the request; any other outcome of the body is the wrapper's.
\<close>

definition checked ::
  "('r \<Rightarrow> exn + bool) \<Rightarrow>
   (string \<Rightarrow> pyval \<Rightarrow> 's outside \<Rightarrow> (exn + 'r) \<times> 's outside) \<Rightarrow>
   (pyval list \<Rightarrow> kwargs \<Rightarrow> 's outside \<Rightarrow> (exn + 'v) \<times> 's outside) \<Rightarrow>
   pyval list \<Rightarrow> kwargs \<Rightarrow> ('r, 's) world \<Rightarrow> (exn + 'v option) \<times> ('r, 's) world" where
  "checked auth_check http_get func args kw w =
     (let access_token = (case kw ''access_token'' of None \<Rightarrow> PStr [] | Some t \<Rightarrow> t)
      in if truthy access_token then
           (case try_cached auth_check func args kw access_token w of
              (Inl KeyError, w') \<Rightarrow> fetch auth_check http_get func args kw access_token w'
            | (Inl e, w') \<Rightarrow> (Inl e, w')
            | (Inr v, w') \<Rightarrow> (Inr v, w'))
         else reject kw w)"

text \<open>
  The wrapper, lines 24 to 55. \<^verbatim>\<open>instance\<close> is not used by the source and has no
  counterpart here.
\<close>

definition authorization ::
  "('r \<Rightarrow> exn + bool) \<Rightarrow>
   (string \<Rightarrow> pyval \<Rightarrow> 's outside \<Rightarrow> (exn + 'r) \<times> 's outside) \<Rightarrow>
   (pyval list \<Rightarrow> kwargs \<Rightarrow> 's outside \<Rightarrow> (exn + 'v) \<times> 's outside) \<Rightarrow>
   pyval list \<Rightarrow> kwargs \<Rightarrow> ('r, 's) world \<Rightarrow> (exn + 'v option) \<times> ('r, 's) world" where
  "authorization auth_check http_get func args kw w =
     (case auth_enabled (environ (outside w)) of
        Inl e \<Rightarrow> (Inl e, w)
      | Inr enabled \<Rightarrow>
          if enabled then checked auth_check http_get func args kw w
          else invoke func args kw w)"

subsection \<open>Collaborators and states for the concrete runs\<close>

text \<open>
  A remote response is read as its list of headers. The predicate is
  \<^verbatim>\<open>lambda response: response.headers['X-Role'] == 'admin'\<close>: subscripting the headers
  raises \<^verbatim>\<open>KeyError\<close> when the header is absent.
\<close>

type_synonym headers = "(string \<times> string) list"

definition role_is_admin :: "headers \<Rightarrow> exn + bool" where
  "role_is_admin response =
     (case map_of response ''X-Role'' of
        None \<Rightarrow> Inl KeyError
      | Some role \<Rightarrow> Inr (role = ''admin''))"

text \<open>A handler that returns \<^verbatim>\<open>'done'\<close>, and one whose body raises \<^verbatim>\<open>KeyError\<close>.\<close>

definition handler_ok ::
  "pyval list \<Rightarrow> kwargs \<Rightarrow> unit outside \<Rightarrow> (exn + pyval) \<times> unit outside" where
  "handler_ok args kw out = (Inr (PStr ''done''), out)"

definition handler_keyerror ::
  "pyval list \<Rightarrow> kwargs \<Rightarrow> unit outside \<Rightarrow> (exn + pyval) \<times> unit outside" where
  "handler_keyerror args kw out = (Inl KeyError, out)"

text \<open>
  Two remote services, each answering after one second: one that knows the role of every
  token (\<^verbatim>\<open>tok-A\<close> is the administrator's), and one that cannot be reached.
\<close>

definition remote_roles ::
  "string \<Rightarrow> pyval \<Rightarrow> unit outside \<Rightarrow> (exn + headers) \<times> unit outside" where
  "remote_roles url token out =
     (Inr [(''X-Role'', if token = PStr ''tok-A'' then ''admin'' else ''guest'')],
      out\<lparr>monotonic := monotonic out + 1\<rparr>)"

definition remote_down ::
  "string \<Rightarrow> pyval \<Rightarrow> unit outside \<Rightarrow> (exn + headers) \<times> unit outside" where
  "remote_down url token out =
     (Inl (OtherError ''ClientConnectorError''), out\<lparr>monotonic := monotonic out + 1\<rparr>)"

definition out_example :: "(string \<rightharpoonup> string) \<Rightarrow> real \<Rightarrow> unit outside" where
  "out_example env t = \<lparr>environ = env, monotonic = t, status_code = (\<lambda>a. 200), ext = ()\<rparr>"

definition world_example ::
  "(pyval \<rightharpoonup> (headers \<times> real)) \<Rightarrow> (string \<rightharpoonup> string) \<Rightarrow> real \<Rightarrow> (headers, unit) world" where
  "world_example c env t =
     \<lparr>cache = c, outside = out_example env t, requests = [], invocations = []\<rparr>"

definition env_endpoint :: "string \<rightharpoonup> string" where
  "env_endpoint = [''AUTH_ENDPOINT'' \<mapsto> ''https://auth/validate'']"

text \<open>
  Keyword arguments of a FastAPI call: the token of the administrator or of a guest, and
  the response object at address 0.
\<close>

definition kw_tok_a :: kwargs where
  "kw_tok_a = [''access_token'' \<mapsto> PStr ''tok-A'', ''response'' \<mapsto> PRef 0]"

definition kw_tok_b :: kwargs where
  "kw_tok_b = [''access_token'' \<mapsto> PStr ''tok-B'', ''response'' \<mapsto> PRef 0]"

section \<open>Properties\<close>

lemmas py_int_defs = py_int_def is_space_def is_body_char_def is_digit_def digits_value_def

subsection \<open>Rounding of the deadline\<close>

text \<open>
  In the binade of \<open>2 ^ e\<close>, \<open>e \<le> 52\<close>, rounding is to the nearest multiple of
  \<open>2 ^ (e - 52)\<close>. A real that is such a multiple is a double, and rounding leaves it as
  it is: the clock readings and deadlines of the concrete runs below (5, 6, 100, 101, 1200,
  1206, 1301) are such numbers.
\<close>

lemma round_even_of_int: "round_even (of_int n) = n"
  by (simp add: round_even_def)

lemma to_double_binade:
  assumes lo: "2 ^ e \<le> x" and hi: "x < 2 ^ Suc e" and e: "e \<le> 52"
  shows "to_double x = of_int (round_even (x * 2 ^ (52 - e))) / 2 ^ (52 - e)"
proof -
  have pos: "0 < x"
    using lo by (rule less_le_trans [rotated]) simp
  have "\<lfloor>log 2 x\<rfloor> = int e"
  proof -
    have "(2::real) powr of_int (int e) \<le> x \<and> x < 2 powr of_int (int e + 1)"
      using lo hi by (simp add: powr_realpow powr_add)
    then show ?thesis
      using pos by (simp add: floor_log_eq_powr_iff)
  qed
  then have ex: "max \<lfloor>log 2 x\<rfloor> (- 1022) = int e"
    by simp
  have up: "(2::real) powr (52 - real e) = 2 ^ (52 - e)"
  proof -
    have "(52::real) - real e = real (52 - e)"
      using e by simp
    then have "(2::real) powr (52 - real e) = 2 powr real (52 - e)"
      by (rule arg_cong)
    then show ?thesis
      by (simp add: powr_realpow)
  qed
  have down: "(2::real) powr (real e - 52) = inverse (2 ^ (52 - e))"
  proof -
    have "real e - (52::real) = - real (52 - e)"
      using e by simp
    then have "(2::real) powr (real e - 52) = 2 powr (- real (52 - e))"
      by (rule arg_cong)
    then show ?thesis
      by (simp add: powr_minus powr_realpow)
  qed
  show ?thesis
    using pos by (simp add: to_double_def ex up down Let_def divide_inverse)
qed

lemma to_double_exact:
  assumes lo: "2 ^ e \<le> x" and hi: "x < 2 ^ Suc e"
    and int: "x * 2 ^ (52 - e) \<in> \<int>" and e: "e \<le> 52"
  shows "to_double x = x"
proof -
  from int obtain n where n: "x * 2 ^ (52 - e) = of_int n"
    by (auto elim: Ints_cases)
  have "to_double x = of_int n / 2 ^ (52 - e)"
    by (simp add: to_double_binade [OF lo hi e] n round_even_of_int)
  also have "\<dots> = x"
    by (simp add: n [symmetric])
  finally show ?thesis .
qed

text \<open>
  Rounding matters: for an entry stored when the clock reads the double nearest to 0.1,
  the stored deadline is below the exact sum, and a lookup at that deadline misses.
\<close>

lemma rounded_deadline_below_sum:
  "float_add (3602879701896397 / 2 ^ 55) 1200 = 5278095617975910 / 2 ^ 42
   \<and> float_add (3602879701896397 / 2 ^ 55) 1200 < 3602879701896397 / 2 ^ 55 + 1200"
proof -
  have "float_add (3602879701896397 / 2 ^ 55) 1200
      = of_int (round_even ((3602879701896397 / 2 ^ 55 + 1200) * 2 ^ 42)) / 2 ^ 42"
    using to_double_binade [where e = 10 and x = "3602879701896397 / 2 ^ 55 + 1200"]
    by (simp add: float_add_def)
  also have "round_even ((3602879701896397 / 2 ^ 55 + 1200) * 2 ^ 42) = 5278095617975910"
    by (simp add: round_even_def)
  finally have eq: "float_add (3602879701896397 / 2 ^ 55) 1200 = 5278095617975910 / 2 ^ 42"
    by simp
  then show ?thesis
    by simp
qed

lemma rounded_deadline_expires:
  "cache_getitem (cache_setitem Map.empty k v (3602879701896397 / 2 ^ 55)) k
     (5278095617975910 / 2 ^ 42) = Inl KeyError"
  using rounded_deadline_below_sum
  by (simp add: cache_getitem_def cache_setitem_def ttl_def)

lemmas deadline_defs = ttl_def float_add_def to_double_exact [where e = 10]

lemmas example_defs =
  world_example_def out_example_def env_endpoint_def role_is_admin_def handler_ok_def
  handler_keyerror_def remote_roles_def remote_down_def

subsection \<open>Steps of the enabled wrapper\<close>


lemma checked_hit_false:
  assumes "kw ''access_token'' = Some tok" "truthy tok"
    and "cache_getitem (cache w) tok (monotonic (outside w)) = Inr r"
    and "auth_check r = Inr False"
  shows "checked auth_check http_get func args kw w = reject kw w"
  using assms
  by (simp add: checked_def try_cached_def next_auth_def reject_def forbid_access_def
      split: option.splits pyval.splits)

lemma checked_miss:
  assumes "kw ''access_token'' = Some tok" "truthy tok"
    and "cache_getitem (cache w) tok (monotonic (outside w)) = Inl KeyError"
    and "environ (outside w) ''AUTH_ENDPOINT'' = Some url"
    and "http_get url tok (outside w) = (Inr r, out1)"
  shows "checked auth_check http_get func args kw w =
           next_auth auth_check func args kw r
             (w\<lparr>cache := cache_setitem (cache w) tok r (monotonic out1),
                outside := out1,
                requests := requests w @ [(url, tok)]\<rparr>)"
  using assms by (simp add: checked_def try_cached_def fetch_def)

lemma reject_carrier:
  assumes "kw ''response'' = Some (PRef a)"
  shows "reject kw w =
           (Inr None,
            w\<lparr>outside := (outside w)\<lparr>status_code := (status_code (outside w))(a := 403)\<rparr>\<rparr>)"
  using assms by (simp add: reject_def forbid_access_def)

subsection \<open>Authorization disabled\<close>

text \<open>
  C5. With \<^verbatim>\<open>AUTH_ENABLED\<close> set to a numeral of value 0, whatever the credential and the
  arguments, the wrapper calls the handler once with the original \<^verbatim>\<open>args\<close> and
  \<^verbatim>\<open>kwargs\<close> and returns its outcome. The final state is the one the handler leaves,
  with that one invocation logged: the cache and the request log are as before, and the
  wrapper itself writes no status.
\<close>

theorem C5_disabled_bypass:
  assumes "environ (outside w) ''AUTH_ENABLED'' = Some s" and "py_int s = Some 0"
  shows "authorization auth_check http_get func args kw w =
           (map_sum id Some (fst (func args kw (outside w))),
            w\<lparr>outside := snd (func args kw (outside w)),
              invocations := invocations w @ [(args, kw)]\<rparr>)"
  using assms
  by (simp add: authorization_def auth_enabled_def invoke_def split: prod.splits sum.splits)

theorem C5_disabled_bypass_witness:
  "authorization role_is_admin remote_roles handler_ok [PInt 7] Map.empty
     (world_example Map.empty [''AUTH_ENABLED'' \<mapsto> ''0''] 0)
   = (Inr (Some (PStr ''done'')),
      \<lparr>cache = Map.empty, outside = out_example [''AUTH_ENABLED'' \<mapsto> ''0''] 0,
       requests = [], invocations = [([PInt 7], Map.empty)]\<rparr>)"
  using C5_disabled_bypass [of "world_example Map.empty [''AUTH_ENABLED'' \<mapsto> ''0''] 0" "''0''"
      role_is_admin remote_roles handler_ok "[PInt 7]" Map.empty]
  by (simp add: world_example_def out_example_def handler_ok_def py_int_defs)

subsection \<open>Missing credential\<close>

text \<open>
  C4. With authorization enabled and the keyword argument \<^verbatim>\<open>access_token\<close> absent or
  falsy (\<^verbatim>\<open>None\<close>, the empty string, 0), and a response object passed as \<^verbatim>\<open>response\<close>,
  the wrapper returns \<^verbatim>\<open>None\<close> and the only change of state is that object's status,
  now 403: no invocation of the handler, no request, and a cache that is neither changed
  nor consulted (the outcome is the same for every cache).
\<close>

theorem C4_empty_credential:
  assumes "auth_enabled (environ (outside w)) = Inr True"
    and "kw ''access_token'' \<in> {None, Some PNone, Some (PStr []), Some (PInt 0)}"
    and "kw ''response'' = Some (PRef a)"
  shows "authorization auth_check http_get func args kw w =
           (Inr None,
            w\<lparr>outside := (outside w)\<lparr>status_code := (status_code (outside w))(a := 403)\<rparr>\<rparr>)"
  using assms
  by (auto simp add: authorization_def checked_def reject_def forbid_access_def)

theorem C4_empty_credential_witness:
  "authorization role_is_admin remote_roles handler_ok []
     [''access_token'' \<mapsto> PStr [], ''response'' \<mapsto> PRef 0]
     (world_example [PStr [] \<mapsto> ([(''X-Role'', ''admin'')], 1200)] env_endpoint 5)
   = (Inr None,
      \<lparr>cache = [PStr [] \<mapsto> ([(''X-Role'', ''admin'')], 1200)],
       outside = \<lparr>environ = env_endpoint, monotonic = 5,
                  status_code = (\<lambda>a. 200)(0 := 403), ext = ()\<rparr>,
       requests = [], invocations = []\<rparr>)"
  using C4_empty_credential [of
      "world_example [PStr [] \<mapsto> ([(''X-Role'', ''admin'')], 1200)] env_endpoint 5"
      "[''access_token'' \<mapsto> PStr [], ''response'' \<mapsto> PRef 0]" 0
      role_is_admin remote_roles handler_ok "[]"]
  by (simp add: world_example_def out_example_def env_endpoint_def auth_enabled_def)

text \<open>
  C9. The credential is \<^verbatim>\<open>kwargs.get('access_token', '')\<close> and nothing else: when the
  keyword is absent, whatever \<^verbatim>\<open>args\<close> holds, the enabled wrapper takes the rejection
  of lines 35 and 36, with no invocation, no request and the cache as it was. In the
  concrete run the administrator's token is cached and accepted when passed by keyword,
  and rejected when passed as the first positional argument.
\<close>

theorem C9_keyword_only:
  assumes "auth_enabled (environ (outside w)) = Inr True"
    and "kw ''access_token'' = None"
  shows "authorization auth_check http_get func args kw w = reject kw w
       \<and> invocations (snd (authorization auth_check http_get func args kw w)) = invocations w
       \<and> requests (snd (authorization auth_check http_get func args kw w)) = requests w
       \<and> cache (snd (authorization auth_check http_get func args kw w)) = cache w"
  using assms
  by (simp add: authorization_def checked_def reject_def forbid_access_def
      split: option.splits pyval.splits)

theorem C9_keyword_only_witness:
  "authorization role_is_admin remote_roles handler_ok [PStr ''tok-A'']
     [''response'' \<mapsto> PRef 0]
     (world_example [PStr ''tok-A'' \<mapsto> ([(''X-Role'', ''admin'')], 1200)] env_endpoint 5)
   = (Inr None,
      \<lparr>cache = [PStr ''tok-A'' \<mapsto> ([(''X-Role'', ''admin'')], 1200)],
       outside = \<lparr>environ = env_endpoint, monotonic = 5,
                  status_code = (\<lambda>a. 200)(0 := 403), ext = ()\<rparr>,
       requests = [], invocations = []\<rparr>)
   \<and> authorization role_is_admin remote_roles handler_ok []
     [''access_token'' \<mapsto> PStr ''tok-A'', ''response'' \<mapsto> PRef 0]
     (world_example [PStr ''tok-A'' \<mapsto> ([(''X-Role'', ''admin'')], 1200)] env_endpoint 5)
   = (Inr (Some (PStr ''done'')),
      \<lparr>cache = [PStr ''tok-A'' \<mapsto> ([(''X-Role'', ''admin'')], 1200)],
       outside = out_example env_endpoint 5,
       requests = [],
       invocations = [([], [''access_token'' \<mapsto> PStr ''tok-A'', ''response'' \<mapsto> PRef 0])]\<rparr>)"
proof
  show "authorization role_is_admin remote_roles handler_ok [PStr ''tok-A'']
     [''response'' \<mapsto> PRef 0]
     (world_example [PStr ''tok-A'' \<mapsto> ([(''X-Role'', ''admin'')], 1200)] env_endpoint 5)
   = (Inr None,
      \<lparr>cache = [PStr ''tok-A'' \<mapsto> ([(''X-Role'', ''admin'')], 1200)],
       outside = \<lparr>environ = env_endpoint, monotonic = 5,
                  status_code = (\<lambda>a. 200)(0 := 403), ext = ()\<rparr>,
       requests = [], invocations = []\<rparr>)"
    using C9_keyword_only [of
      "world_example [PStr ''tok-A'' \<mapsto> ([(''X-Role'', ''admin'')], 1200)] env_endpoint 5"
      "[''response'' \<mapsto> PRef 0]" role_is_admin remote_roles handler_ok "[PStr ''tok-A'']"]
    by (simp add: world_example_def out_example_def env_endpoint_def auth_enabled_def
        reject_def forbid_access_def)
  show "authorization role_is_admin remote_roles handler_ok []
     [''access_token'' \<mapsto> PStr ''tok-A'', ''response'' \<mapsto> PRef 0]
     (world_example [PStr ''tok-A'' \<mapsto> ([(''X-Role'', ''admin'')], 1200)] env_endpoint 5)
   = (Inr (Some (PStr ''done'')),
      \<lparr>cache = [PStr ''tok-A'' \<mapsto> ([(''X-Role'', ''admin'')], 1200)],
       outside = out_example env_endpoint 5,
       requests = [],
       invocations = [([], [''access_token'' \<mapsto> PStr ''tok-A'', ''response'' \<mapsto> PRef 0])]\<rparr>)"
    by (simp add: authorization_def auth_enabled_def checked_def try_cached_def next_auth_def
        invoke_def cache_getitem_def example_defs Let_def)
qed

subsection \<open>The predicate decides\<close>



subsection \<open>What a miss stores\<close>

text \<open>
  \<^verbatim>\<open>next\<close> changes neither the cache nor the request log, whatever the predicate and
  the handler do.
\<close>

lemma next_auth_frame:
  "cache (snd (next_auth auth_check func args kw r w)) = cache w
   \<and> requests (snd (next_auth auth_check func args kw r w)) = requests w"
  by (simp add: next_auth_def invoke_def reject_def split: sum.splits prod.splits)

lemma cache_setitem_same: "cache_setitem c k v now k = Some (v, float_add now 1200)"
  by (simp add: cache_setitem_def ttl_def)

text \<open>
  C3. Authorization is enabled, the credential is truthy, the lookup raises
  \<^verbatim>\<open>KeyError\<close>, the endpoint is configured and the request returns \<open>r\<close> when the clock
  reads \<open>monotonic out1\<close>. Then, with nothing assumed of the predicate or the handler, the
  cache ends holding \<open>r\<close> for the credential with the deadline that the cache computed,
  the double \<open>float_add (monotonic out1) 1200\<close>, and one request was logged. If moreover
  the predicate returns false on \<open>r\<close>, the call
  returns \<^verbatim>\<open>None\<close> with status 403 and no invocation, and a second call with the same
  credential, made in the resulting state at any clock reading before that stored deadline,
  returns \<^verbatim>\<open>None\<close> and changes nothing but the status of its own response object, set
  to 403: it logs no request.
\<close>

theorem C3_negative_caching:
  assumes en: "auth_enabled (environ (outside w)) = Inr True"
    and tok: "kw ''access_token'' = Some tok" "truthy tok"
    and miss: "cache_getitem (cache w) tok (monotonic (outside w)) = Inl KeyError"
    and url: "environ (outside w) ''AUTH_ENDPOINT'' = Some url"
    and get: "http_get url tok (outside w) = (Inr r, out1)"
  shows
    "cache (snd (authorization auth_check http_get func args kw w)) tok
       = Some (r, float_add (monotonic out1) 1200)
   \<and> requests (snd (authorization auth_check http_get func args kw w))
       = requests w @ [(url, tok)]
   \<and> (auth_check r = Inr False \<and> kw ''response'' = Some (PRef a)
        \<and> kw2 ''access_token'' = Some tok \<and> kw2 ''response'' = Some (PRef a2)
        \<and> auth_enabled (environ out2) = Inr True
        \<and> monotonic out2 < float_add (monotonic out1) 1200
      \<longrightarrow> fst (authorization auth_check http_get func args kw w) = Inr None
          \<and> status_code (outside (snd (authorization auth_check http_get func args kw w))) a = 403
          \<and> invocations (snd (authorization auth_check http_get func args kw w)) = invocations w
          \<and> authorization auth_check http_get2 func2 args2 kw2
               ((snd (authorization auth_check http_get func args kw w))\<lparr>outside := out2\<rparr>)
             = (Inr None,
                (snd (authorization auth_check http_get func args kw w))
                  \<lparr>outside := out2\<lparr>status_code := (status_code out2)(a2 := 403)\<rparr>\<rparr>))"
proof -
  let ?w1 = "w\<lparr>cache := cache_setitem (cache w) tok r (monotonic out1),
                outside := out1,
                requests := requests w @ [(url, tok)]\<rparr>"
  have first: "authorization auth_check http_get func args kw w =
      next_auth auth_check func args kw r ?w1"
    using en tok miss url get
    by (simp add: authorization_def checked_miss [where tok = tok and url = url and ?out1.0 = out1])
  have stored: "cache (snd (authorization auth_check http_get func args kw w)) tok
       = Some (r, float_add (monotonic out1) 1200)"
    by (simp add: first next_auth_frame cache_setitem_same)
  have asked: "requests (snd (authorization auth_check http_get func args kw w))
       = requests w @ [(url, tok)]"
    by (simp add: first next_auth_frame)
  have again: "fst (authorization auth_check http_get func args kw w) = Inr None
          \<and> status_code (outside (snd (authorization auth_check http_get func args kw w))) a = 403
          \<and> invocations (snd (authorization auth_check http_get func args kw w)) = invocations w
          \<and> authorization auth_check http_get2 func2 args2 kw2
               ((snd (authorization auth_check http_get func args kw w))\<lparr>outside := out2\<rparr>)
             = (Inr None,
                (snd (authorization auth_check http_get func args kw w))
                  \<lparr>outside := out2\<lparr>status_code := (status_code out2)(a2 := 403)\<rparr>\<rparr>)"
    if h: "auth_check r = Inr False \<and> kw ''response'' = Some (PRef a)
        \<and> kw2 ''access_token'' = Some tok \<and> kw2 ''response'' = Some (PRef a2)
        \<and> auth_enabled (environ out2) = Inr True
        \<and> monotonic out2 < float_add (monotonic out1) 1200"
  proof -
    have res: "authorization auth_check http_get func args kw w =
        (Inr None, ?w1\<lparr>outside := out1\<lparr>status_code := (status_code out1)(a := 403)\<rparr>\<rparr>)"
      using h by (simp add: first next_auth_def reject_carrier)
    let ?w2 = "(snd (authorization auth_check http_get func args kw w))\<lparr>outside := out2\<rparr>"
    have hit: "cache_getitem (cache ?w2) tok (monotonic (outside ?w2)) = Inr r"
      using h by (simp add: res cache_getitem_def cache_setitem_same)
    have "checked auth_check http_get2 func2 args2 kw2 ?w2 = reject kw2 ?w2"
      using h tok(2) hit by (simp add: checked_hit_false [where tok = tok and r = r])
    then have second: "authorization auth_check http_get2 func2 args2 kw2 ?w2
        = (Inr None, ?w2\<lparr>outside := out2\<lparr>status_code := (status_code out2)(a2 := 403)\<rparr>\<rparr>)"
      using h reject_carrier [of kw2 a2 ?w2] by (simp add: authorization_def)
    show ?thesis
      using second by (simp add: res)
  qed
  show ?thesis
    using stored asked again by blast
qed

theorem C3_negative_caching_witness:
  "cache (snd (authorization role_is_admin remote_roles handler_ok [] kw_tok_b
        (world_example Map.empty env_endpoint 5))) (PStr ''tok-B'')
     = Some ([(''X-Role'', ''guest'')], 1206)
   \<and> fst (authorization role_is_admin remote_roles handler_ok [] kw_tok_b
        (world_example Map.empty env_endpoint 5)) = Inr None
   \<and> status_code (outside (snd (authorization role_is_admin remote_roles handler_ok [] kw_tok_b
        (world_example Map.empty env_endpoint 5)))) 0 = 403
   \<and> fst (authorization role_is_admin remote_roles handler_ok [] kw_tok_b
        ((snd (authorization role_is_admin remote_roles handler_ok [] kw_tok_b
             (world_example Map.empty env_endpoint 5)))
           \<lparr>outside := out_example env_endpoint 1205\<rparr>)) = Inr None
   \<and> requests (snd (authorization role_is_admin remote_roles handler_ok [] kw_tok_b
        ((snd (authorization role_is_admin remote_roles handler_ok [] kw_tok_b
             (world_example Map.empty env_endpoint 5)))
           \<lparr>outside := out_example env_endpoint 1205\<rparr>)))
     = [(''https://auth/validate'', PStr ''tok-B'')]
   \<and> status_code (outside (snd (authorization role_is_admin remote_roles handler_ok [] kw_tok_b
        ((snd (authorization role_is_admin remote_roles handler_ok [] kw_tok_b
             (world_example Map.empty env_endpoint 5)))
           \<lparr>outside := out_example env_endpoint 1205\<rparr>)))) 0 = 403"
  using C3_negative_caching [where
      w = "world_example Map.empty env_endpoint 5" and kw = kw_tok_b and tok = "PStr ''tok-B''"
      and url = "''https://auth/validate''" and http_get = remote_roles
      and r = "[(''X-Role'', ''guest'')]" and ?out1.0 = "out_example env_endpoint 6"
      and auth_check = role_is_admin and func = handler_ok and args = "[]" and a = 0
      and ?kw2.0 = kw_tok_b and ?a2.0 = 0 and ?out2.0 = "out_example env_endpoint 1205"
      and ?http_get2.0 = remote_roles and ?func2.0 = handler_ok and ?args2.0 = "[]"]
  by (simp add: example_defs kw_tok_b_def auth_enabled_def cache_getitem_def deadline_defs)

subsection \<open>The switch \<^verbatim>\<open>AUTH_ENABLED\<close>\<close>

text \<open>
  C8, as the claim states it, fails: the value \<^verbatim>\<open>false\<close> and the empty string (the one
  falsy string of Python) make \<^verbatim>\<open>int\<close> raise \<^verbatim>\<open>ValueError\<close>, and the wrapper with
  it, before anything else happens.
\<close>

theorem C8_counterexample:
  "fst (authorization role_is_admin remote_roles handler_ok [] kw_tok_a
          (world_example Map.empty [''AUTH_ENABLED'' \<mapsto> ''false''] 0)) = Inl ValueError
   \<and> fst (authorization role_is_admin remote_roles handler_ok [] kw_tok_a
          (world_example Map.empty [''AUTH_ENABLED'' \<mapsto> ''''] 0)) = Inl ValueError"
  by (simp add: authorization_def auth_enabled_def py_int_defs world_example_def out_example_def)

text \<open>
  C8, amended. The wrapper reads \<^verbatim>\<open>AUTH_ENABLED\<close> as an integer numeral, as its
  docstring says (\<^verbatim>\<open>To disable authorization set the AUTH_ENABLED env var to 0\<close>). Unset,
  authorization is enabled. Set to a string that \<^verbatim>\<open>int\<close> parses, the wrapper is the
  plain call of the handler when the integer is 0, and the enabled wrapper for every other
  integer. Set to a string that \<^verbatim>\<open>int\<close> does not parse, the wrapper raises
  \<^verbatim>\<open>ValueError\<close> and changes nothing.
\<close>

theorem C8_auth_enabled_integer:
  "(environ (outside w) ''AUTH_ENABLED'' = None
      \<longrightarrow> authorization auth_check http_get func args kw w
          = checked auth_check http_get func args kw w)
   \<and> (environ (outside w) ''AUTH_ENABLED'' = Some s \<and> py_int s = Some n
      \<longrightarrow> authorization auth_check http_get func args kw w
          = (if n = 0 then invoke func args kw w
             else checked auth_check http_get func args kw w))
   \<and> (environ (outside w) ''AUTH_ENABLED'' = Some s \<and> py_int s = None
      \<longrightarrow> authorization auth_check http_get func args kw w = (Inl ValueError, w))"
  by (simp add: authorization_def auth_enabled_def)

theorem C8_auth_enabled_integer_witness:
  "authorization role_is_admin remote_roles handler_ok [] Map.empty
     (world_example Map.empty Map.empty 0)
     = (Inr None, world_example Map.empty Map.empty 0)
   \<and> authorization role_is_admin remote_roles handler_ok [] Map.empty
     (world_example Map.empty [''AUTH_ENABLED'' \<mapsto> ''0''] 0)
     = (Inr (Some (PStr ''done'')),
        (world_example Map.empty [''AUTH_ENABLED'' \<mapsto> ''0''] 0)
          \<lparr>invocations := [([], Map.empty)]\<rparr>)
   \<and> authorization role_is_admin remote_roles handler_ok [] Map.empty
     (world_example Map.empty [''AUTH_ENABLED'' \<mapsto> ''-2''] 0)
     = (Inr None, world_example Map.empty [''AUTH_ENABLED'' \<mapsto> ''-2''] 0)
   \<and> authorization role_is_admin remote_roles handler_ok [] Map.empty
     (world_example Map.empty [''AUTH_ENABLED'' \<mapsto> ''off''] 0)
     = (Inl ValueError, world_example Map.empty [''AUTH_ENABLED'' \<mapsto> ''off''] 0)"
proof (intro conjI)
  show "authorization role_is_admin remote_roles handler_ok [] Map.empty
     (world_example Map.empty Map.empty 0)
     = (Inr None, world_example Map.empty Map.empty 0)"
    using C8_auth_enabled_integer [where w = "world_example Map.empty Map.empty 0"
        and auth_check = role_is_admin and http_get = remote_roles and func = handler_ok
        and args = "[]" and kw = Map.empty]
    by (simp add: world_example_def out_example_def checked_def reject_def forbid_access_def)
  show "authorization role_is_admin remote_roles handler_ok [] Map.empty
     (world_example Map.empty [''AUTH_ENABLED'' \<mapsto> ''0''] 0)
     = (Inr (Some (PStr ''done'')),
        (world_example Map.empty [''AUTH_ENABLED'' \<mapsto> ''0''] 0)
          \<lparr>invocations := [([], Map.empty)]\<rparr>)"
    using C8_auth_enabled_integer [where w = "world_example Map.empty [''AUTH_ENABLED'' \<mapsto> ''0''] 0"
        and s = "''0''" and n = 0
        and auth_check = role_is_admin and http_get = remote_roles and func = handler_ok
        and args = "[]" and kw = Map.empty]
    by (simp add: world_example_def out_example_def py_int_defs invoke_def handler_ok_def)
  show "authorization role_is_admin remote_roles handler_ok [] Map.empty
     (world_example Map.empty [''AUTH_ENABLED'' \<mapsto> ''-2''] 0)
     = (Inr None, world_example Map.empty [''AUTH_ENABLED'' \<mapsto> ''-2''] 0)"
    using C8_auth_enabled_integer [where w = "world_example Map.empty [''AUTH_ENABLED'' \<mapsto> ''-2''] 0"
        and s = "''-2''" and n = "-2"
        and auth_check = role_is_admin and http_get = remote_roles and func = handler_ok
        and args = "[]" and kw = Map.empty]
    by (simp add: world_example_def out_example_def py_int_defs checked_def reject_def
        forbid_access_def)
  show "authorization role_is_admin remote_roles handler_ok [] Map.empty
     (world_example Map.empty [''AUTH_ENABLED'' \<mapsto> ''off''] 0)
     = (Inl ValueError, world_example Map.empty [''AUTH_ENABLED'' \<mapsto> ''off''] 0)"
    using C8_auth_enabled_integer [where w = "world_example Map.empty [''AUTH_ENABLED'' \<mapsto> ''off''] 0"
        and s = "''off''"
        and auth_check = role_is_admin and http_get = remote_roles and func = handler_ok
        and args = "[]" and kw = Map.empty]
    by (simp add: world_example_def out_example_def py_int_defs)
qed

subsection \<open>Rejection with no response object\<close>

lemma reject_no_carrier:
  assumes "kw ''response'' \<in> {None, Some PNone, Some (PStr []), Some (PInt 0)}"
  shows "reject kw w = (Inr None, w)"
  using assms by (auto simp add: reject_def forbid_access_def)

text \<open>
  C10, as the claim states it, fails: a rejection by the predicate that follows a cache
  miss has stored the response and issued a request, even when no \<^verbatim>\<open>response\<close> keyword
  is passed.
\<close>

theorem C10_counterexample:
  "fst (authorization role_is_admin remote_roles handler_ok []
          [''access_token'' \<mapsto> PStr ''tok-B''] (world_example Map.empty env_endpoint 5))
     = Inr None
   \<and> cache (world_example Map.empty env_endpoint 5) (PStr ''tok-B'') = None
   \<and> cache (snd (authorization role_is_admin remote_roles handler_ok []
          [''access_token'' \<mapsto> PStr ''tok-B''] (world_example Map.empty env_endpoint 5)))
        (PStr ''tok-B'')
     = Some ([(''X-Role'', ''guest'')], 1206)
   \<and> requests (snd (authorization role_is_admin remote_roles handler_ok []
          [''access_token'' \<mapsto> PStr ''tok-B''] (world_example Map.empty env_endpoint 5)))
     = [(''https://auth/validate'', PStr ''tok-B'')]"
  by (simp add: authorization_def auth_enabled_def checked_def try_cached_def fetch_def
      next_auth_def reject_def forbid_access_def cache_getitem_def cache_setitem_def deadline_defs
      example_defs Let_def)

text \<open>
  C10, amended. Authorization is enabled and the keyword \<^verbatim>\<open>response\<close> is absent or
  falsy. On every rejection the wrapper returns \<^verbatim>\<open>None\<close> without raising and the
  rejection itself changes no state: with a missing credential, and with a predicate that
  returns false on a cached response, the final state is the initial one; with a predicate
  that returns false on a fetched response, the final state is the one the miss left (the
  response stored, the request logged, the outside as the request left it).
\<close>

theorem C10_rejection_without_carrier:
  assumes en: "auth_enabled (environ (outside w)) = Inr True"
    and nr: "kw ''response'' \<in> {None, Some PNone, Some (PStr []), Some (PInt 0)}"
  shows
    "(kw ''access_token'' \<in> {None, Some PNone, Some (PStr []), Some (PInt 0)}
      \<longrightarrow> authorization auth_check http_get func args kw w = (Inr None, w))
   \<and> (kw ''access_token'' = Some tok \<and> truthy tok
        \<and> cache_getitem (cache w) tok (monotonic (outside w)) = Inr r
        \<and> auth_check r = Inr False
      \<longrightarrow> authorization auth_check http_get func args kw w = (Inr None, w))
   \<and> (kw ''access_token'' = Some tok \<and> truthy tok
        \<and> cache_getitem (cache w) tok (monotonic (outside w)) = Inl KeyError
        \<and> environ (outside w) ''AUTH_ENDPOINT'' = Some url
        \<and> http_get url tok (outside w) = (Inr r, out1)
        \<and> auth_check r = Inr False
      \<longrightarrow> authorization auth_check http_get func args kw w =
            (Inr None,
             w\<lparr>cache := cache_setitem (cache w) tok r (monotonic out1),
               outside := out1,
               requests := requests w @ [(url, tok)]\<rparr>))"
proof -
  have unfold: "authorization auth_check http_get func args kw w =
      checked auth_check http_get func args kw w"
    using en by (simp add: authorization_def)
  note rej = reject_no_carrier [where kw = kw]
  show ?thesis
  proof (intro conjI impI)
    assume "kw ''access_token'' \<in> {None, Some PNone, Some (PStr []), Some (PInt 0)}"
    then have "checked auth_check http_get func args kw w = reject kw w"
      by (auto simp add: checked_def)
    then show "authorization auth_check http_get func args kw w = (Inr None, w)"
      using nr by (simp add: unfold rej)
  next
    assume "kw ''access_token'' = Some tok \<and> truthy tok
        \<and> cache_getitem (cache w) tok (monotonic (outside w)) = Inr r
        \<and> auth_check r = Inr False"
    then have "checked auth_check http_get func args kw w = reject kw w"
      by (simp add: checked_hit_false [where tok = tok and r = r])
    then show "authorization auth_check http_get func args kw w = (Inr None, w)"
      using nr by (simp add: unfold rej)
  next
    assume h: "kw ''access_token'' = Some tok \<and> truthy tok
        \<and> cache_getitem (cache w) tok (monotonic (outside w)) = Inl KeyError
        \<and> environ (outside w) ''AUTH_ENDPOINT'' = Some url
        \<and> http_get url tok (outside w) = (Inr r, out1)
        \<and> auth_check r = Inr False"
    then have "checked auth_check http_get func args kw w =
           next_auth auth_check func args kw r
             (w\<lparr>cache := cache_setitem (cache w) tok r (monotonic out1),
                outside := out1,
                requests := requests w @ [(url, tok)]\<rparr>)"
      by (simp add: checked_miss [where tok = tok and url = url and ?out1.0 = out1])
    with h show "authorization auth_check http_get func args kw w =
            (Inr None,
             w\<lparr>cache := cache_setitem (cache w) tok r (monotonic out1),
               outside := out1,
               requests := requests w @ [(url, tok)]\<rparr>)"
      using nr by (simp add: unfold next_auth_def rej)
  qed
qed

theorem C10_rejection_without_carrier_witness:
  "authorization role_is_admin remote_roles handler_ok [] Map.empty
     (world_example Map.empty env_endpoint 5)
     = (Inr None, world_example Map.empty env_endpoint 5)
   \<and> authorization role_is_admin remote_roles handler_ok []
       [''access_token'' \<mapsto> PStr ''tok-B'', ''response'' \<mapsto> PNone]
       (world_example [PStr ''tok-B'' \<mapsto> ([(''X-Role'', ''guest'')], 1200)] env_endpoint 5)
     = (Inr None,
        world_example [PStr ''tok-B'' \<mapsto> ([(''X-Role'', ''guest'')], 1200)] env_endpoint 5)
   \<and> authorization role_is_admin remote_roles handler_ok []
       [''access_token'' \<mapsto> PStr ''tok-B''] (world_example Map.empty env_endpoint 5)
     = (Inr None,
        \<lparr>cache = [PStr ''tok-B'' \<mapsto> ([(''X-Role'', ''guest'')], 1206)],
         outside = out_example env_endpoint 6,
         requests = [(''https://auth/validate'', PStr ''tok-B'')], invocations = []\<rparr>)"
proof (intro conjI)
  show "authorization role_is_admin remote_roles handler_ok [] Map.empty
     (world_example Map.empty env_endpoint 5)
     = (Inr None, world_example Map.empty env_endpoint 5)"
    using C10_rejection_without_carrier [where w = "world_example Map.empty env_endpoint 5"
        and kw = Map.empty and auth_check = role_is_admin and http_get = remote_roles
        and func = handler_ok and args = "[]"]
    by (simp add: example_defs auth_enabled_def)
  show "authorization role_is_admin remote_roles handler_ok []
       [''access_token'' \<mapsto> PStr ''tok-B'', ''response'' \<mapsto> PNone]
       (world_example [PStr ''tok-B'' \<mapsto> ([(''X-Role'', ''guest'')], 1200)] env_endpoint 5)
     = (Inr None,
        world_example [PStr ''tok-B'' \<mapsto> ([(''X-Role'', ''guest'')], 1200)] env_endpoint 5)"
    using C10_rejection_without_carrier [where
        w = "world_example [PStr ''tok-B'' \<mapsto> ([(''X-Role'', ''guest'')], 1200)] env_endpoint 5"
        and kw = "[''access_token'' \<mapsto> PStr ''tok-B'', ''response'' \<mapsto> PNone]"
        and tok = "PStr ''tok-B''" and r = "[(''X-Role'', ''guest'')]"
        and auth_check = role_is_admin and http_get = remote_roles
        and func = handler_ok and args = "[]"]
    by (simp add: example_defs auth_enabled_def cache_getitem_def)
  show "authorization role_is_admin remote_roles handler_ok []
       [''access_token'' \<mapsto> PStr ''tok-B''] (world_example Map.empty env_endpoint 5)
     = (Inr None,
        \<lparr>cache = [PStr ''tok-B'' \<mapsto> ([(''X-Role'', ''guest'')], 1206)],
         outside = out_example env_endpoint 6,
         requests = [(''https://auth/validate'', PStr ''tok-B'')], invocations = []\<rparr>)"
    using C10_rejection_without_carrier [where w = "world_example Map.empty env_endpoint 5"
        and kw = "[''access_token'' \<mapsto> PStr ''tok-B'']"
        and tok = "PStr ''tok-B''" and r = "[(''X-Role'', ''guest'')]"
        and url = "''https://auth/validate''" and ?out1.0 = "out_example env_endpoint 6"
        and auth_check = role_is_admin and http_get = remote_roles
        and func = handler_ok and args = "[]"]
    by (simp add: example_defs auth_enabled_def cache_getitem_def cache_setitem_def expire_def
        deadline_defs)
qed

subsection \<open>A \<^verbatim>\<open>KeyError\<close> raised under the \<^verbatim>\<open>try\<close>\<close>

text \<open>
  The \<^verbatim>\<open>try\<close> statement of lines 43 to 47 encloses \<^verbatim>\<open>return await next(response)\<close>
  together with the cache lookup, so \<^verbatim>\<open>except KeyError: pass\<close> also catches a
  \<^verbatim>\<open>KeyError\<close> that the predicate or the handler raises on a cache hit. The call then
  goes on to the request of lines 49 to 55, where the same exceptions are not caught. The
  three runs below evaluate the wrapper on such inputs.
\<close>

text \<open>
  What holds of these paths in general. On a miss, an exception of the predicate, of the
  request, or of the lookup of \<^verbatim>\<open>AUTH_ENDPOINT\<close> reaches the caller, the last two before
  any invocation. On a hit, an exception of the predicate other than \<^verbatim>\<open>KeyError\<close>
  reaches the caller, and a call in which \<^verbatim>\<open>next\<close> does not end in \<^verbatim>\<open>KeyError\<close>
  issues no request and leaves the cache as it was. An entry whose deadline has been
  reached is a miss.
\<close>

lemma miss_predicate_exception:
  assumes "auth_enabled (environ (outside w)) = Inr True"
    and "kw ''access_token'' = Some tok" "truthy tok"
    and "cache_getitem (cache w) tok (monotonic (outside w)) = Inl KeyError"
    and "environ (outside w) ''AUTH_ENDPOINT'' = Some url"
    and "http_get url tok (outside w) = (Inr r, out1)"
    and "auth_check r = Inl e"
  shows "authorization auth_check http_get func args kw w =
           (Inl e,
            w\<lparr>cache := cache_setitem (cache w) tok r (monotonic out1),
              outside := out1,
              requests := requests w @ [(url, tok)]\<rparr>)"
  using assms
  by (simp add: authorization_def next_auth_def
      checked_miss [where tok = tok and url = url and ?out1.0 = out1])

lemma hit_predicate_exception:
  assumes "auth_enabled (environ (outside w)) = Inr True"
    and "kw ''access_token'' = Some tok" "truthy tok"
    and "cache_getitem (cache w) tok (monotonic (outside w)) = Inr r"
    and "auth_check r = Inl e" and "e \<noteq> KeyError"
  shows "authorization auth_check http_get func args kw w = (Inl e, w)"
  using assms
  by (simp add: authorization_def checked_def try_cached_def next_auth_def split: exn.splits)

lemma hit_without_keyerror:
  assumes "auth_enabled (environ (outside w)) = Inr True"
    and "kw ''access_token'' = Some tok" "truthy tok"
    and "cache_getitem (cache w) tok (monotonic (outside w)) = Inr r"
    and "fst (next_auth auth_check func args kw r w) \<noteq> Inl KeyError"
  shows "authorization auth_check http_get func args kw w = next_auth auth_check func args kw r w
       \<and> requests (snd (authorization auth_check http_get func args kw w)) = requests w
       \<and> cache (snd (authorization auth_check http_get func args kw w)) = cache w"
proof -
  have "authorization auth_check http_get func args kw w = next_auth auth_check func args kw r w"
    using assms
    by (cases "next_auth auth_check func args kw r w")
      (simp add: authorization_def checked_def try_cached_def split: sum.splits exn.splits)
  then show ?thesis
    by (simp add: next_auth_frame)
qed

lemma expired_is_miss:
  assumes "cache w tok = Some (r0, deadline)" and "deadline \<le> monotonic (outside w)"
  shows "cache_getitem (cache w) tok (monotonic (outside w)) = Inl KeyError"
  using assms by (simp add: cache_getitem_def)

lemma miss_remote_failure:
  assumes "auth_enabled (environ (outside w)) = Inr True"
    and "kw ''access_token'' = Some tok" "truthy tok"
    and "cache_getitem (cache w) tok (monotonic (outside w)) = Inl KeyError"
    and "environ (outside w) ''AUTH_ENDPOINT'' = Some url"
    and "http_get url tok (outside w) = (Inl e, out1)"
  shows "authorization auth_check http_get func args kw w =
           (Inl e, w\<lparr>outside := out1, requests := requests w @ [(url, tok)]\<rparr>)"
  using assms
  by (simp add: authorization_def checked_def try_cached_def fetch_def)

lemma miss_endpoint_unset:
  assumes "auth_enabled (environ (outside w)) = Inr True"
    and "kw ''access_token'' = Some tok" "truthy tok"
    and "cache_getitem (cache w) tok (monotonic (outside w)) = Inl KeyError"
    and "environ (outside w) ''AUTH_ENDPOINT'' = None"
  shows "authorization auth_check http_get func args kw w = (Inl KeyError, w)"
  using assms
  by (simp add: authorization_def checked_def try_cached_def fetch_def)

lemma cache_setitem_empty:
  "cache_setitem Map.empty k v now = [k \<mapsto> (v, float_add now 1200)]"
  by (rule ext) (simp add: cache_setitem_def expire_def ttl_def)

lemma cache_setitem_overwrite:
  "cache_setitem [k \<mapsto> e] k v now = [k \<mapsto> (v, float_add now 1200)]"
  by (rule ext) (simp add: cache_setitem_def expire_def ttl_def)

lemmas run_defs =
  authorization_def auth_enabled_def checked_def try_cached_def fetch_def next_auth_def
  invoke_def reject_def forbid_access_def cache_getitem_def cache_setitem_empty
  cache_setitem_overwrite deadline_defs Let_def

text \<open>
  C7. The cached response for \<^verbatim>\<open>tok-A\<close> has no \<^verbatim>\<open>X-Role\<close> header, so the predicate
  raises \<^verbatim>\<open>KeyError\<close> on it, five seconds into a 1200-second entry. The exception does
  not reach the caller: the wrapper issues a request, replaces the cache entry, evaluates
  the predicate on the new response and returns the handler's value.
\<close>

theorem C7_cached_keyerror_swallowed:
  "authorization role_is_admin remote_roles handler_ok [] kw_tok_a
     (world_example [PStr ''tok-A'' \<mapsto> ([], 1200)] env_endpoint 5)
   = (Inr (Some (PStr ''done'')),
      \<lparr>cache = [PStr ''tok-A'' \<mapsto> ([(''X-Role'', ''admin'')], 1206)],
       outside = out_example env_endpoint 6,
       requests = [(''https://auth/validate'', PStr ''tok-A'')],
       invocations = [([], kw_tok_a)]\<rparr>)"
  by (simp add: run_defs example_defs kw_tok_a_def)

text \<open>
  C6. The cached response for \<^verbatim>\<open>tok-A\<close> is accepted by the predicate, the handler
  raises \<^verbatim>\<open>KeyError\<close>, and the remote service cannot be reached. The connection error
  reaches the caller, but the handler has been invoked once before the request was made.
\<close>

theorem C6_handler_ran_before_failure:
  "authorization role_is_admin remote_down handler_keyerror [] kw_tok_a
     (world_example [PStr ''tok-A'' \<mapsto> ([(''X-Role'', ''admin'')], 1200)] env_endpoint 5)
   = (Inl (OtherError ''ClientConnectorError''),
      \<lparr>cache = [PStr ''tok-A'' \<mapsto> ([(''X-Role'', ''admin'')], 1200)],
       outside = out_example env_endpoint 6,
       requests = [(''https://auth/validate'', PStr ''tok-A'')],
       invocations = [([], kw_tok_a)]\<rparr>)"
  by (simp add: run_defs example_defs kw_tok_a_def)

text \<open>
  C2. Two calls with the credential \<^verbatim>\<open>tok-A\<close> and a handler that raises
  \<^verbatim>\<open>KeyError\<close>. The first, on an empty cache at time 5, issues one request and stores the
  response with the deadline 1206. The second starts from the state the first left, at
  time 100, within the lifetime of the entry: it issues a second request, and invokes the
  handler twice.
\<close>

theorem C2_refetch_within_ttl:
  "authorization role_is_admin remote_roles handler_keyerror [] kw_tok_a
     (world_example Map.empty env_endpoint 5)
   = (Inl KeyError,
      \<lparr>cache = [PStr ''tok-A'' \<mapsto> ([(''X-Role'', ''admin'')], 1206)],
       outside = out_example env_endpoint 6,
       requests = [(''https://auth/validate'', PStr ''tok-A'')],
       invocations = [([], kw_tok_a)]\<rparr>)
   \<and> authorization role_is_admin remote_roles handler_keyerror [] kw_tok_a
     \<lparr>cache = [PStr ''tok-A'' \<mapsto> ([(''X-Role'', ''admin'')], 1206)],
      outside = out_example env_endpoint 100,
      requests = [(''https://auth/validate'', PStr ''tok-A'')],
      invocations = [([], kw_tok_a)]\<rparr>
   = (Inl KeyError,
      \<lparr>cache = [PStr ''tok-A'' \<mapsto> ([(''X-Role'', ''admin'')], 1301)],
       outside = out_example env_endpoint 101,
       requests = [(''https://auth/validate'', PStr ''tok-A''),
                   (''https://auth/validate'', PStr ''tok-A'')],
       invocations = [([], kw_tok_a), ([], kw_tok_a), ([], kw_tok_a)]\<rparr>)"
  by (simp add: run_defs example_defs kw_tok_a_def)

end
